theory Spec2Isabelle
  imports Complex_Main
begin

section \<open>Python dictionaries\<close>

text \<open>
  A Python \<open>dict\<close> keeps its keys in insertion order, so it is an association list.
  \<open>d.get(k, default)\<close>, \<open>d[k]\<close> (which raises \<open>KeyError\<close> on a missing key),
  \<open>d.keys()\<close>, \<open>d.values()\<close> and the assignment \<open>d[k] = v\<close> are the operations the
  program uses. The other exception of the program is the \<open>AttributeError\<close> of a method
  call on \<open>None\<close>; it carries the name of the attribute.
\<close>

type_synonym ('k, 'v) dict = "('k \<times> 'v) list"

datatype py_error = KeyError string | AttributeError string

definition dict_keys :: "('k, 'v) dict \<Rightarrow> 'k list" where
  "dict_keys d = map fst d"

definition dict_values :: "('k, 'v) dict \<Rightarrow> 'v list" where
  "dict_values d = map snd d"

definition dict_get :: "('k, 'v) dict \<Rightarrow> 'k \<Rightarrow> 'v \<Rightarrow> 'v" where
  "dict_get d k dflt = (case map_of d k of Some v \<Rightarrow> v | None \<Rightarrow> dflt)"

definition dict_item :: "(string, 'v) dict \<Rightarrow> string \<Rightarrow> py_error + 'v" where
  "dict_item d k = (case map_of d k of Some v \<Rightarrow> Inr v | None \<Rightarrow> Inl (KeyError k))"

fun dict_set :: "('k, 'v) dict \<Rightarrow> 'k \<Rightarrow> 'v \<Rightarrow> ('k, 'v) dict" where
  "dict_set [] k v = [(k, v)]"
| "dict_set ((k', v') # d) k v =
     (if k' = k then (k, v) # d else (k', v') # dict_set d k v)"

section \<open>Floating-point results\<close>

text \<open>
  Prices are finite numbers, modelled as reals: rounding, overflow and the sign of zero
  of IEEE doubles are not modelled. The derived series of pandas hold \<open>NaN\<close> where a
  value is undefined and an infinity where a finite value is divided by zero, so their
  elements are of type \<open>fnum\<close>.
\<close>

datatype fnum = Val real | PInf | NInf | NaN

text \<open>Division of two cells that are finite or \<open>NaN\<close>.\<close>

fun fdiv :: "real option \<Rightarrow> real option \<Rightarrow> fnum" where
  "fdiv (Some a) (Some b) =
     (if b = 0 then (if a = 0 then NaN else if 0 < a then PInf else NInf)
      else Val (a / b))"
| "fdiv _ _ = NaN"

fun fsub1 :: "fnum \<Rightarrow> fnum" where
  "fsub1 (Val a) = Val (a - 1)"
| "fsub1 x = x"

fun fmul100 :: "fnum \<Rightarrow> fnum" where
  "fmul100 (Val a) = Val (a * 100)"
| "fmul100 x = x"

fun fadd :: "fnum \<Rightarrow> fnum \<Rightarrow> fnum" where
  "fadd (Val a) (Val b) = Val (a + b)"
| "fadd NaN _ = NaN"
| "fadd _ NaN = NaN"
| "fadd PInf NInf = NaN"
| "fadd NInf PInf = NaN"
| "fadd PInf _ = PInf"
| "fadd _ PInf = PInf"
| "fadd NInf _ = NInf"
| "fadd _ NInf = NInf"

section \<open>pandas series operations\<close>

text \<open>
  \<open>Series.pct_change()\<close> of the pandas versions that accept \<open>resample('Q')\<close> first
  fills missing cells forward (\<open>fill_method='pad'\<close>), then computes
  \<open>data / data.shift(1) - 1\<close>: the first element has no predecessor and is \<open>NaN\<close>.
\<close>

fun ffill_from :: "'a option \<Rightarrow> 'a option list \<Rightarrow> 'a option list" where
  "ffill_from prev [] = []"
| "ffill_from prev (None # xs) = prev # ffill_from prev xs"
| "ffill_from prev (Some v # xs) = Some v # ffill_from (Some v) xs"

definition ffill :: "'a option list \<Rightarrow> 'a option list" where
  "ffill xs = ffill_from None xs"

definition shift1 :: "'a option list \<Rightarrow> 'a option list" where
  "shift1 xs = take (length xs) (None # xs)"

definition pct_change :: "real option list \<Rightarrow> fnum list" where
  "pct_change xs =
     (let data = ffill xs; shifted = shift1 data
      in map (\<lambda>(cur, prev). fsub1 (fdiv cur prev)) (zip data shifted))"

text \<open>
  \<open>Series.cumsum()\<close> skips \<open>NaN\<close>: a \<open>NaN\<close> cell adds nothing to the running sum and
  stays \<open>NaN\<close> in the result.
\<close>

fun cumsum_from :: "fnum \<Rightarrow> fnum list \<Rightarrow> fnum list" where
  "cumsum_from acc [] = []"
| "cumsum_from acc (x # xs) =
     (if x = NaN then NaN # cumsum_from acc xs
      else fadd acc x # cumsum_from (fadd acc x) xs)"

definition cumsum :: "fnum list \<Rightarrow> fnum list" where
  "cumsum xs = cumsum_from (Val 0) xs"

text \<open>\<open>Series.dropna()\<close> removes the entries whose value is \<open>NaN\<close>, with their index.\<close>

definition dropna :: "('i \<times> fnum) list \<Rightarrow> ('i \<times> fnum) list" where
  "dropna s = filter (\<lambda>(i, v). v \<noteq> NaN) s"

subsection \<open>Calendar quarters\<close>

record date =
  year :: nat
  month :: nat
  day :: nat

definition quarter :: "date \<Rightarrow> nat" where
  "quarter d = (month d - 1) div 3 + 1"

definition quarter_index :: "date \<Rightarrow> nat" where
  "quarter_index d = 4 * year d + (month d - 1) div 3"

definition quarter_end :: "nat \<Rightarrow> date" where
  "quarter_end qi =
     (let q = qi mod 4 + 1
      in \<lparr>year = qi div 4, month = 3 * q, day = (if q = 1 \<or> q = 4 then 31 else 30)\<rparr>)"

text \<open>
  \<open>resample('Q').last()\<close>: one bin per calendar quarter from the earliest to the latest
  quarter of the series, indexed by the quarter's last day, holding the last value that
  falls into the quarter (no value for a quarter without sessions).
\<close>

definition last_in_quarter :: "(date \<times> real) list \<Rightarrow> nat \<Rightarrow> real option" where
  "last_in_quarter series qi =
     (case filter (\<lambda>(d, c). quarter_index d = qi) series of
        [] \<Rightarrow> None
      | y # ys \<Rightarrow> Some (snd (last (y # ys))))"

definition resample_Q_last :: "(date \<times> real) list \<Rightarrow> (date \<times> real option) list" where
  "resample_Q_last series =
     (case map (\<lambda>(d, c). quarter_index d) series of
        [] \<Rightarrow> []
      | q # qs \<Rightarrow>
          map (\<lambda>qi. (quarter_end qi, last_in_quarter series qi))
            [fold min qs q ..< Suc (fold max qs q)])"

section \<open>The market data source\<close>

text \<open>
  The data provider is outside the program. One snapshot of it is a record of functions:
  \<open>history\<close> is \<open>yf.Ticker(t).history(period=p)\<close> (sessions in chronological order,
  empty when the provider has nothing), \<open>info\<close> is \<open>yf.Ticker(t).info\<close> with the two
  keys the program reads (\<open>None\<close> for an absent key), \<open>download\<close> is \<open>yf.download\<close>.
\<close>

datatype period = P1d | P1y

record session =
  s_date :: date
  s_open :: real
  s_high :: real
  s_low :: real
  s_close :: real

record profile =
  longName :: "string option"
  marketCap :: "real option"

record source =
  history :: "string \<Rightarrow> period \<Rightarrow> session list"
  info :: "string \<Rightarrow> profile"
  download :: "string \<Rightarrow> string \<Rightarrow> string \<Rightarrow> session list"

section \<open>DumbergAPI\<close>

text \<open>
  The object's only attribute is \<open>company_dict\<close>. Every method takes the object and
  returns it with its result, so that what a method does to the registry is part of the
  model.
\<close>

record api =
  company_dict :: "(string, string) dict"

definition init_api :: api where
  "init_api = \<lparr>company_dict =
     [(''Apple Inc.'', ''AAPL''),
      (''Microsoft Corp.'', ''MSFT''),
      (''Alphabet Inc. (Google)'', ''GOOGL''),
      (''Amazon.com Inc.'', ''AMZN''),
      (''NVIDIA Corporation'', ''NVDA''),
      (''Tesla Inc.'', ''TSLA''),
      (''Berkshire Hathaway Inc.'', ''BRK-B''),
      (''Meta Platforms Inc. (Facebook)'', ''META''),
      (''Taiwan Semiconductor Manufacturing Company'', ''TSM''),
      (''Johnson & Johnson'', ''JNJ'')]\<rparr>"

definition fetch_stock_data ::
    "source \<Rightarrow> api \<Rightarrow> string \<Rightarrow> (real option \<times> real option) \<times> api" where
  "fetch_stock_data src self ticker =
     (case history src ticker P1d of
        [] \<Rightarrow> ((None, None), self)
      | x # _ \<Rightarrow> ((Some (s_close x), Some (s_open x)), self))"

text \<open>The lookup of line 50, \<open>self.company_dict.get(company, company)\<close>.\<close>

definition resolve :: "(string, string) dict \<Rightarrow> string \<Rightarrow> string" where
  "resolve reg identifier = dict_get reg identifier identifier"

record stock_row =
  Company :: string
  Ticker :: string
  Current_Price :: real
  Opening_Price :: real
  Price_Change :: real

fun stock_rows_loop ::
    "source \<Rightarrow> api \<Rightarrow> string list \<Rightarrow> stock_row list \<Rightarrow> stock_row list \<times> api" where
  "stock_rows_loop src self [] rows = (rows, self)"
| "stock_rows_loop src self (company # rest) rows =
     (let ticker = resolve (company_dict self) company
      in case fetch_stock_data src self ticker of
           ((Some current_price, Some opening_price), self') \<Rightarrow>
             stock_rows_loop src self' rest
               (rows @ [\<lparr>Company = company, Ticker = ticker,
                          Current_Price = current_price,
                          Opening_Price = opening_price,
                          Price_Change = current_price - opening_price\<rparr>])
         | (_, self') \<Rightarrow> stock_rows_loop src self' rest rows)"

definition create_stock_dataframe ::
    "source \<Rightarrow> api \<Rightarrow> string list \<Rightarrow> stock_row list \<times> api" where
  "create_stock_dataframe src self tickers =
     stock_rows_loop src self
       (if tickers = [] then dict_keys (company_dict self) else tickers) []"

text \<open>
  A figure is what the program hands to the plotting library: the data arrays of its
  trace. Layout constants (titles, colours, sizes) carry no data and are left out, apart
  from the per-row colours of the table. The price cell of the table is the number that
  \<open>f"${...:.2f}"\<close> renders.
\<close>

record table_row =
  T_Ticker :: string
  T_Price :: real
  T_Status :: string

datatype figure =
    Empty_Figure
  | Table "table_row list" "string list"
  | Pie "string list" "real list"
  | Scatter "date list" "fnum list"
  | Waterfall "string list" "fnum list"
  | Candlestick "date list" "real list" "real list" "real list" "real list"

fun stock_table_loop ::
    "stock_row list \<Rightarrow> table_row list \<Rightarrow> string list \<Rightarrow> table_row list \<times> string list" where
  "stock_table_loop [] rows colors = (rows, colors)"
| "stock_table_loop (row # rest) rows colors =
     (let status = (if Current_Price row > Opening_Price row then ''Up'' else ''Down'');
          color = (if status = ''Up'' then ''#4af6c3'' else ''#ff433d'')
      in stock_table_loop rest
           (rows @ [\<lparr>T_Ticker = Ticker row, T_Price = Current_Price row, T_Status = status\<rparr>])
           (colors @ [color]))"

definition create_stock_table :: "api \<Rightarrow> stock_row list \<Rightarrow> figure \<times> api" where
  "create_stock_table self stock_df =
     (case stock_table_loop stock_df [] [] of (rows, colors) \<Rightarrow> (Table rows colors, self))"

text \<open>
  \<open>plot_donut_chart\<close>: the comprehension of line 101 indexes the registry with every
  selected name and raises \<open>KeyError\<close> at the first one that is not a key; the loop of
  lines 103 to 106 then collects one market capitalisation per ticker.
\<close>

fun lookup_all :: "(string, string) dict \<Rightarrow> string list \<Rightarrow> py_error + string list" where
  "lookup_all reg [] = Inr []"
| "lookup_all reg (company # rest) =
     (case dict_item reg company of
        Inl e \<Rightarrow> Inl e
      | Inr ticker \<Rightarrow>
          (case lookup_all reg rest of
             Inl e \<Rightarrow> Inl e
           | Inr tickers \<Rightarrow> Inr (ticker # tickers)))"

fun market_caps_loop :: "source \<Rightarrow> string list \<Rightarrow> real list \<Rightarrow> real list" where
  "market_caps_loop src [] market_caps = market_caps"
| "market_caps_loop src (ticker # rest) market_caps =
     (let market_cap =
            (case marketCap (info src ticker) of None \<Rightarrow> 0 | Some m \<Rightarrow> m) / 1000000000
      in market_caps_loop src rest (market_caps @ [market_cap]))"

definition fetch_market_caps :: "source \<Rightarrow> string list \<Rightarrow> real list" where
  "fetch_market_caps src tickers = market_caps_loop src tickers []"

definition plot_donut_chart ::
    "source \<Rightarrow> api \<Rightarrow> string list \<Rightarrow> (py_error + figure) \<times> api" where
  "plot_donut_chart src self selected_companies =
     (case lookup_all (company_dict self) selected_companies of
        Inl e \<Rightarrow> (Inl e, self)
      | Inr tickers \<Rightarrow> (Inr (Pie tickers (fetch_market_caps src tickers)), self))"

text \<open>
  \<open>plot_performance_chart\<close>: the \<open>Returns\<close> column is
  \<open>data['Close'].pct_change().cumsum() * 100\<close>.
\<close>

definition computeReturnSeries :: "real list \<Rightarrow> fnum list" where
  "computeReturnSeries closes = map fmul100 (cumsum (pct_change (map Some closes)))"

definition plot_performance_chart :: "source \<Rightarrow> api \<Rightarrow> string \<Rightarrow> figure \<times> api" where
  "plot_performance_chart src self ticker =
     (case history src ticker P1y of
        [] \<Rightarrow> (Empty_Figure, self)
      | p # ps \<Rightarrow>
          (Scatter (map s_date (p # ps)) (computeReturnSeries (map s_close (p # ps))), self))"

text \<open>
  \<open>plot_waterfall_chart\<close>: \<open>quarterly_changes\<close> is the percent change of the quarterly
  closes times 100, indexed by quarter end. The trace takes its \<open>x\<close> from the index of
  \<open>quarterly_changes\<close> itself and its \<open>y\<close> from \<open>quarterly_changes.dropna()\<close>. How
  \<open>Index.strftime\<close> renders the pattern \<open>'%Y-Q%q'\<close> belongs to the library, so the
  rendering is the parameter \<open>strftime\<close>.
\<close>

definition quarterly_changes :: "session list \<Rightarrow> (date \<times> fnum) list" where
  "quarterly_changes data =
     (let quarterly_data = resample_Q_last (map (\<lambda>p. (s_date p, s_close p)) data)
      in zip (map fst quarterly_data) (map fmul100 (pct_change (map snd quarterly_data))))"

definition plot_waterfall_chart ::
    "(date \<Rightarrow> string) \<Rightarrow> source \<Rightarrow> api \<Rightarrow> string \<Rightarrow> figure \<times> api" where
  "plot_waterfall_chart strftime src self ticker =
     (case history src ticker P1y of
        [] \<Rightarrow> (Empty_Figure, self)
      | p # ps \<Rightarrow>
          (Waterfall (map (\<lambda>(d, v). strftime d) (quarterly_changes (p # ps)))
                     (map snd (dropna (quarterly_changes (p # ps)))), self))"

definition plot_candlestick :: "source \<Rightarrow> api \<Rightarrow> figure \<times> api" where
  "plot_candlestick src self =
     (let df = download src ''^GSPC'' ''2023-01-01'' ''2024-12-31''
      in (Candlestick (map s_date df) (map s_open df) (map s_high df) (map s_low df)
            (map s_close df), self))"

text \<open>
  The plotting library draws a trace point by point, pairing \<open>x\<close> and \<open>y\<close> by position
  up to the shorter of the two: these are the (label, value) pairs a waterfall chart
  shows.
\<close>

fun points :: "figure \<Rightarrow> (string \<times> fnum) list" where
  "points (Waterfall xs ys) = zip xs ys"
| "points _ = []"

text \<open>
  Modelled from the spec: the label \<open>"YYYY-Q<n>"\<close> of a date (four-digit year, a hyphen,
  the letter Q, the quarter number), which the spec gives as the rendering of the pattern
  \<open>'%Y-Q%q'\<close>; the formatting routine itself is the library's.
\<close>

definition digit :: "nat \<Rightarrow> char" where
  "digit n = ''0123456789'' ! (n mod 10)"

definition quarter_label :: "date \<Rightarrow> string" where
  "quarter_label d =
     [digit (year d div 1000), digit (year d div 100), digit (year d div 10), digit (year d)]
       @ ''-Q'' @ [digit (quarter d)]"

section \<open>The dashboard\<close>

text \<open>
  The module \<open>dumberg.py\<close> owns the API object and the widgets. \<open>add_ticker\<close> reads the
  text input and, for a symbol the provider cannot describe, calls
  \<open>pn.state.notifications.error\<close> with the \<open>InvalidTicker\<close> message.
  \<open>pn.state.notifications\<close> is the notification area when the application has enabled
  notifications and \<open>None\<close> otherwise, so the field \<open>notifications\<close> is an option: the
  messages shown so far, or \<open>None\<close>. Line 10 of the module, \<open>pn.extension('plotly')\<close>,
  does not enable them. A callback returns \<open>None\<close> (\<open>Inr ()\<close>) or raises (\<open>Inl\<close>), and
  leaves the dashboard in the state given with its result.
  \<open>str.upper\<close> is modelled on ASCII letters.
\<close>

definition upper_char :: "char \<Rightarrow> char" where
  "upper_char c =
     (case map_of (zip ''abcdefghijklmnopqrstuvwxyz'' ''ABCDEFGHIJKLMNOPQRSTUVWXYZ'') c of
        Some u \<Rightarrow> u
      | None \<Rightarrow> c)"

definition upper :: "string \<Rightarrow> string" where
  "upper s = map upper_char s"

record dashboard =
  api_obj :: api
  selector_options :: "string list"
  ticker_input_value :: string
  notifications :: "string list option"

definition InvalidTicker :: string where
  "InvalidTicker = ''Invalid Ticker: Unable to find company information.''"

definition add_ticker :: "source \<Rightarrow> dashboard \<Rightarrow> (py_error + unit) \<times> dashboard" where
  "add_ticker src d =
     (let new_ticker = upper (ticker_input_value d);
          reg = company_dict (api_obj d)
      in if new_ticker \<noteq> [] \<and> new_ticker \<notin> set (dict_values reg) then
           (case longName (info src new_ticker) of
              Some company_name \<Rightarrow>
                (let reg' = dict_set reg company_name new_ticker
                 in (Inr (), d\<lparr>api_obj := (api_obj d)\<lparr>company_dict := reg'\<rparr>,
                               selector_options := dict_keys reg',
                               ticker_input_value := []\<rparr>))
            | None \<Rightarrow>
                (case notifications d of
                   None \<Rightarrow> (Inl (AttributeError ''error''), d)
                 | Some shown \<Rightarrow>
                     (Inr (), d\<lparr>notifications := Some (shown @ [InvalidTicker])\<rparr>)))
         else (Inr (), d))"

datatype pane =
    Markdown string
  | Plotly figure
  | Tabs "(string \<times> figure \<times> figure) list"

definition update_stock_table :: "source \<Rightarrow> api \<Rightarrow> string list \<Rightarrow> pane \<times> api" where
  "update_stock_table src a selected =
     (if selected \<noteq> [] then
        (case create_stock_dataframe src a selected of
           (stock_df, a1) \<Rightarrow>
             (case create_stock_table a1 stock_df of (fig, a2) \<Rightarrow> (Plotly fig, a2)))
      else (Markdown ''### Please select at least one company.'', a))"

definition update_donut_chart ::
    "source \<Rightarrow> api \<Rightarrow> string list \<Rightarrow> (py_error + pane) \<times> api" where
  "update_donut_chart src a selected =
     (if selected \<noteq> [] then
        (case plot_donut_chart src a selected of
           (Inl e, a1) \<Rightarrow> (Inl e, a1)
         | (Inr fig, a1) \<Rightarrow> (Inr (Plotly fig), a1))
      else (Inr (Markdown
        ''### Please select at least one company to view market cap distribution.''), a))"

fun performance_tabs_loop ::
    "(date \<Rightarrow> string) \<Rightarrow> source \<Rightarrow> api \<Rightarrow> string list \<Rightarrow> (string \<times> figure \<times> figure) list
       \<Rightarrow> (py_error + (string \<times> figure \<times> figure) list) \<times> api" where
  "performance_tabs_loop strftime src a [] tabs = (Inr tabs, a)"
| "performance_tabs_loop strftime src a (ticker # rest) tabs =
     (case dict_item (company_dict a) ticker of
        Inl e \<Rightarrow> (Inl e, a)
      | Inr full_ticker \<Rightarrow>
          (case plot_performance_chart src a full_ticker of
             (performance_chart, a1) \<Rightarrow>
               (case plot_waterfall_chart strftime src a1 full_ticker of
                  (waterfall_chart, a2) \<Rightarrow>
                    performance_tabs_loop strftime src a2 rest
                      (tabs @ [(ticker, performance_chart, waterfall_chart)]))))"

definition update_performance_tabs ::
    "(date \<Rightarrow> string) \<Rightarrow> source \<Rightarrow> api \<Rightarrow> string list \<Rightarrow> (py_error + pane) \<times> api" where
  "update_performance_tabs strftime src a selected =
     (if selected \<noteq> [] then
        (case performance_tabs_loop strftime src a selected [] of
           (Inl e, a1) \<Rightarrow> (Inl e, a1)
         | (Inr tabs, a1) \<Rightarrow> (Inr (Tabs tabs), a1))
      else (Inr (Markdown ''### Select a stock to view performance.''), a))"

section \<open>Sample data\<close>

text \<open>
  Snapshots of the provider used to run the model: \<open>demo_source\<close> knows two of the
  default tickers and one new symbol, \<open>full_source\<close> has a session for every symbol,
  \<open>dead_source\<close> knows nothing.
\<close>

definition session_of :: "date \<Rightarrow> real \<Rightarrow> real \<Rightarrow> session" where
  "session_of d opening closing =
     \<lparr>s_date = d, s_open = opening, s_high = max opening closing,
      s_low = min opening closing, s_close = closing\<rparr>"

definition two_quarters :: "session list" where
  "two_quarters =
     [session_of \<lparr>year = 2024, month = 3, day = 27\<rparr> 99 100,
      session_of \<lparr>year = 2024, month = 3, day = 28\<rparr> 100 110,
      session_of \<lparr>year = 2024, month = 4, day = 1\<rparr> 110 121]"

definition no_profile :: profile where
  "no_profile = \<lparr>longName = None, marketCap = None\<rparr>"

definition demo_source :: source where
  "demo_source =
     \<lparr>history = (\<lambda>t p.
        if t = ''AAPL'' then
          (case p of
             P1d \<Rightarrow> [session_of \<lparr>year = 2024, month = 4, day = 1\<rparr> 110 121]
           | P1y \<Rightarrow> two_quarters)
        else if t = ''MSFT'' \<and> p = P1d then
          [session_of \<lparr>year = 2024, month = 4, day = 1\<rparr> 50 40]
        else []),
      info = (\<lambda>t.
        if t = ''AAPL'' then
          \<lparr>longName = Some ''Apple Inc.'', marketCap = Some 3000000000000\<rparr>
        else if t = ''SHOP'' then
          \<lparr>longName = Some ''Shopify Inc.'', marketCap = None\<rparr>
        else no_profile),
      download = (\<lambda>t from to. [])\<rparr>"

definition full_source :: source where
  "full_source =
     \<lparr>history = (\<lambda>t p. [session_of \<lparr>year = 2024, month = 4, day = 1\<rparr> 10 10]),
      info = (\<lambda>t. no_profile),
      download = (\<lambda>t from to. [])\<rparr>"

definition dead_source :: source where
  "dead_source =
     \<lparr>history = (\<lambda>t p. []), info = (\<lambda>t. no_profile), download = (\<lambda>t from to. [])\<rparr>"

text \<open>
  The dashboard as \<open>dumberg.py\<close> sets it up (the default registry, notifications not
  enabled) with a given text in the input.
\<close>

definition dashboard_with :: "string \<Rightarrow> dashboard" where
  "dashboard_with text_value =
     \<lparr>api_obj = init_api, selector_options = dict_keys (company_dict init_api),
      ticker_input_value = text_value, notifications = None\<rparr>"

section \<open>Cumulative returns\<close>

lemma returns_three:
  "a \<noteq> 0 \<Longrightarrow> b \<noteq> 0 \<Longrightarrow>
   computeReturnSeries [a, b, c] =
     [NaN, Val ((b / a - 1) * 100), Val (((b / a - 1) + (c / b - 1)) * 100)]"
  by (simp add: computeReturnSeries_def cumsum_def pct_change_def ffill_def shift1_def)

text \<open>
  C1, as the program computes it: for the closes 100, 110, 121 the cumulative percentage
  after the third session is \<open>((110/100 - 1) + (121/110 - 1)) * 100\<close>, and that number
  is 20, the sum of the two simple returns of 10 percent each. The whole series is an
  undefined first point, then 10, then 20.
\<close>

theorem returns_100_110_121:
  "computeReturnSeries [100, 110, 121] ! 2 = Val (((110 / 100 - 1) + (121 / 110 - 1)) * 100)
   \<and> ((110 / 100 - 1) + (121 / 110 - 1)) * 100 = (20 :: real)
   \<and> computeReturnSeries [100, 110, 121] = [NaN, Val 10, Val 20]"
  by (simp add: returns_three)

text \<open>
  C1 as stated gives 21.0 for the third session; the program's value is not 21.
\<close>

theorem returns_100_110_121_not_21:
  "computeReturnSeries [100, 110, 121] ! 2 \<noteq> Val 21"
  by (simp add: returns_three)

section \<open>Market capitalisation\<close>

lemma market_caps_loop_map:
  "market_caps_loop src tickers acc =
     acc @ map (\<lambda>t. (case marketCap (info src t) of None \<Rightarrow> 0 | Some m \<Rightarrow> m) / 1000000000)
             tickers"
  by (induction tickers arbitrary: acc) simp_all

text \<open>
  C5: for every list of tickers the market-cap loop returns one value per ticker, in the
  order of the tickers; the value is the reported market capitalisation divided by
  \<open>1e9\<close>, and 0 for a ticker whose profile has no market-cap field.
\<close>

theorem fetch_market_caps_order:
  "length (fetch_market_caps src tickers) = length tickers
   \<and> fetch_market_caps src tickers =
       map (\<lambda>t. (case marketCap (info src t) of None \<Rightarrow> 0 | Some m \<Rightarrow> m) / 1000000000)
         tickers"
  by (simp add: fetch_market_caps_def market_caps_loop_map)

section \<open>Ticker resolution\<close>

text \<open>
  C8: \<open>resolve\<close> returns the registry's symbol for a known display name and the
  identifier itself otherwise; when the result is not itself a display name of the
  registry, resolving it again returns it unchanged.
\<close>

theorem resolve_idempotent:
  "(map_of reg identifier = Some symbol \<longrightarrow> resolve reg identifier = symbol)
   \<and> (map_of reg identifier = None \<longrightarrow> resolve reg identifier = identifier)
   \<and> (map_of reg (resolve reg identifier) = None \<longrightarrow>
        resolve reg (resolve reg identifier) = resolve reg identifier)"
  by (simp add: resolve_def dict_get_def)

theorem resolve_idempotent_witness:
  "map_of (company_dict init_api) ''Apple Inc.'' = Some ''AAPL''
   \<and> resolve (company_dict init_api) ''Apple Inc.'' = ''AAPL''
   \<and> map_of (company_dict init_api) ''AAPL'' = None
   \<and> resolve (company_dict init_api) ''AAPL'' = ''AAPL''
   \<and> map_of (company_dict init_api) (resolve (company_dict init_api) ''Apple Inc.'') = None
   \<and> resolve (company_dict init_api) (resolve (company_dict init_api) ''Apple Inc.'') =
       resolve (company_dict init_api) ''Apple Inc.''"
  using resolve_idempotent [of "company_dict init_api" "''Apple Inc.''" "''AAPL''"]
        resolve_idempotent [of "company_dict init_api" "''AAPL''" "''AAPL''"]
  by (simp add: init_api_def)

section \<open>Stock records\<close>

lemma stock_rows_loop_rows:
  "fst (stock_rows_loop src self ids rows) =
     rows @ concat (map (\<lambda>c.
       case history src (resolve (company_dict self) c) P1d of
         [] \<Rightarrow> []
       | x # xs \<Rightarrow> [\<lparr>Company = c, Ticker = resolve (company_dict self) c,
                      Current_Price = s_close x, Opening_Price = s_open x,
                      Price_Change = s_close x - s_open x\<rparr>]) ids)"
  by (induction ids arbitrary: rows)
     (simp_all add: fetch_stock_data_def Let_def split: list.splits)

lemma stock_rows_loop_delta:
  "r \<in> set (fst (stock_rows_loop src self ids [])) \<Longrightarrow>
     Price_Change r = Current_Price r - Opening_Price r"
  by (auto simp: stock_rows_loop_rows split: list.splits)

lemma stock_table_loop_rows:
  "stock_table_loop df rows colors =
     (rows @ map (\<lambda>row. \<lparr>T_Ticker = Ticker row, T_Price = Current_Price row,
                          T_Status = (if Current_Price row > Opening_Price row
                                      then ''Up'' else ''Down'')\<rparr>) df,
      colors @ map (\<lambda>row. if Current_Price row > Opening_Price row
                          then ''#4af6c3'' else ''#ff433d'') df)"
  by (induction df arbitrary: rows colors) (simp_all add: Let_def)

lemma demo_dataframe:
  "create_stock_dataframe demo_source init_api [''Apple Inc.'', ''MSFT'', ''Tesla Inc.''] =
     ([\<lparr>Company = ''Apple Inc.'', Ticker = ''AAPL'', Current_Price = 121,
         Opening_Price = 110, Price_Change = 11\<rparr>,
       \<lparr>Company = ''MSFT'', Ticker = ''MSFT'', Current_Price = 40,
         Opening_Price = 50, Price_Change = - 10\<rparr>], init_api)"
  by (simp add: create_stock_dataframe_def fetch_stock_data_def resolve_def dict_get_def
        init_api_def demo_source_def session_of_def Let_def)

lemma demo_table:
  "create_stock_table init_api
     [\<lparr>Company = ''Apple Inc.'', Ticker = ''AAPL'', Current_Price = 121,
         Opening_Price = 110, Price_Change = 11\<rparr>,
       \<lparr>Company = ''MSFT'', Ticker = ''MSFT'', Current_Price = 40,
         Opening_Price = 50, Price_Change = - 10\<rparr>] =
     (Table [\<lparr>T_Ticker = ''AAPL'', T_Price = 121, T_Status = ''Up''\<rparr>,
             \<lparr>T_Ticker = ''MSFT'', T_Price = 40, T_Status = ''Down''\<rparr>]
        [''#4af6c3'', ''#ff433d''], init_api)"
  by (simp add: create_stock_table_def)

text \<open>
  C2: every row that \<open>create_stock_dataframe\<close> produces has a price change equal to its
  current price minus its opening price, and \<open>create_stock_table\<close> makes one table row
  per record, whose status is \<open>Up\<close> exactly when that price change is greater than 0
  and \<open>Down\<close> otherwise.
\<close>

theorem delta_and_status:
  "create_stock_dataframe src self ids = (df, self') \<Longrightarrow>
   create_stock_table self' df = (Table rows colors, self'') \<Longrightarrow>
   length rows = length df
   \<and> (\<forall>i < length df.
         Price_Change (df ! i) = Current_Price (df ! i) - Opening_Price (df ! i)
         \<and> T_Status (rows ! i) = (if 0 < Price_Change (df ! i) then ''Up'' else ''Down''))"
proof -
  assume df: "create_stock_dataframe src self ids = (df, self')"
    and tb: "create_stock_table self' df = (Table rows colors, self'')"
  have delta: "Price_Change r = Current_Price r - Opening_Price r" if "r \<in> set df" for r
  proof -
    from df have "df = fst (stock_rows_loop src self
        (if ids = [] then dict_keys (company_dict self) else ids) [])"
      by (simp add: create_stock_dataframe_def)
    with that show ?thesis
      using stock_rows_loop_delta by blast
  qed
  from tb have rows: "rows = map (\<lambda>row. \<lparr>T_Ticker = Ticker row, T_Price = Current_Price row,
        T_Status = (if Current_Price row > Opening_Price row then ''Up'' else ''Down'')\<rparr>) df"
    by (simp add: create_stock_table_def stock_table_loop_rows)
  show ?thesis
  proof (intro conjI allI impI)
    show "length rows = length df" by (simp add: rows)
  next
    fix i assume i: "i < length df"
    then show "Price_Change (df ! i) = Current_Price (df ! i) - Opening_Price (df ! i)"
      by (simp add: delta)
  next
    fix i assume i: "i < length df"
    then have "Price_Change (df ! i) = Current_Price (df ! i) - Opening_Price (df ! i)"
      by (simp add: delta)
    with i show "T_Status (rows ! i) = (if 0 < Price_Change (df ! i) then ''Up'' else ''Down'')"
      by (simp add: rows)
  qed
qed

theorem delta_and_status_witness:
  "create_stock_dataframe demo_source init_api [''Apple Inc.'', ''MSFT'', ''Tesla Inc.''] =
     ([\<lparr>Company = ''Apple Inc.'', Ticker = ''AAPL'', Current_Price = 121,
         Opening_Price = 110, Price_Change = 11\<rparr>,
       \<lparr>Company = ''MSFT'', Ticker = ''MSFT'', Current_Price = 40,
         Opening_Price = 50, Price_Change = - 10\<rparr>], init_api)
   \<and> create_stock_table init_api
     [\<lparr>Company = ''Apple Inc.'', Ticker = ''AAPL'', Current_Price = 121,
         Opening_Price = 110, Price_Change = 11\<rparr>,
       \<lparr>Company = ''MSFT'', Ticker = ''MSFT'', Current_Price = 40,
         Opening_Price = 50, Price_Change = - 10\<rparr>] =
     (Table [\<lparr>T_Ticker = ''AAPL'', T_Price = 121, T_Status = ''Up''\<rparr>,
             \<lparr>T_Ticker = ''MSFT'', T_Price = 40, T_Status = ''Down''\<rparr>]
        [''#4af6c3'', ''#ff433d''], init_api)
   \<and> (11 :: real) = 121 - 110 \<and> (0 :: real) < 11
   \<and> (- 10 :: real) = 40 - 50 \<and> \<not> (0 :: real) < - 10"
  using delta_and_status [OF demo_dataframe demo_table] demo_dataframe demo_table
  by simp

lemma resolve_entry:
  "distinct (map fst reg) \<Longrightarrow> (c, t) \<in> set reg \<Longrightarrow> resolve reg c = t"
  by (simp add: resolve_def dict_get_def)

lemma rows_of_entries:
  "distinct (map fst reg) \<Longrightarrow> set xs \<subseteq> set reg \<Longrightarrow>
   map (\<lambda>r. (Company r, Ticker r))
     (concat (map (\<lambda>c.
       case history src (resolve reg c) P1d of
         [] \<Rightarrow> []
       | x # ys \<Rightarrow> [\<lparr>Company = c, Ticker = resolve reg c,
                      Current_Price = s_close x, Opening_Price = s_open x,
                      Price_Change = s_close x - s_open x\<rparr>]) (map fst xs))) =
   filter (\<lambda>(c, t). history src t P1d \<noteq> []) xs"
proof (induction xs)
  case Nil
  then show ?case by simp
next
  case (Cons e xs)
  obtain c t where e: "e = (c, t)" by (cases e)
  with Cons.prems have "resolve reg c = t"
    by (simp add: resolve_entry)
  with Cons e show ?case
    by (simp split: list.splits)
qed

lemma init_distinct: "distinct (dict_keys (company_dict init_api))"
  by (simp add: init_api_def dict_keys_def)

text \<open>
  C3: called with no identifiers, \<open>create_stock_dataframe\<close> goes through the whole
  registry: it returns, in registry order, one record per entry whose fetch returned a
  session, with the entry's name and symbol. When every fetch succeeds there are as many
  records as registry entries. The keys of a dictionary are distinct.
\<close>

theorem empty_selection_whole_registry:
  "distinct (dict_keys (company_dict self)) \<Longrightarrow>
   map (\<lambda>r. (Company r, Ticker r)) (fst (create_stock_dataframe src self [])) =
     filter (\<lambda>(c, t). history src t P1d \<noteq> []) (company_dict self)
   \<and> ((\<forall>(c, t) \<in> set (company_dict self). history src t P1d \<noteq> []) \<longrightarrow>
        length (fst (create_stock_dataframe src self [])) = length (company_dict self))"
proof -
  assume d: "distinct (dict_keys (company_dict self))"
  then have eq: "map (\<lambda>r. (Company r, Ticker r)) (fst (create_stock_dataframe src self [])) =
     filter (\<lambda>(c, t). history src t P1d \<noteq> []) (company_dict self)"
    using rows_of_entries [of "company_dict self" "company_dict self" src]
    by (simp add: create_stock_dataframe_def stock_rows_loop_rows dict_keys_def)
  have "length (fst (create_stock_dataframe src self [])) = length (company_dict self)"
    if "\<forall>(c, t) \<in> set (company_dict self). history src t P1d \<noteq> []"
  proof -
    from that have "filter (\<lambda>(c, t). history src t P1d \<noteq> []) (company_dict self) =
        company_dict self"
      by (auto simp: filter_id_conv)
    with eq have "map (\<lambda>r. (Company r, Ticker r)) (fst (create_stock_dataframe src self [])) =
        company_dict self" by simp
    then show ?thesis by (metis length_map)
  qed
  with eq show ?thesis by blast
qed

theorem empty_selection_whole_registry_witness:
  "distinct (dict_keys (company_dict init_api))
   \<and> map (\<lambda>r. (Company r, Ticker r)) (fst (create_stock_dataframe demo_source init_api [])) =
       [(''Apple Inc.'', ''AAPL''), (''Microsoft Corp.'', ''MSFT'')]
   \<and> length (fst (create_stock_dataframe full_source init_api [])) = 10"
  using empty_selection_whole_registry [OF init_distinct, of demo_source]
        empty_selection_whole_registry [OF init_distinct, of full_source] init_distinct
  by (simp add: init_api_def demo_source_def full_source_def)

section \<open>Registering a ticker\<close>

text \<open>
  Whatever the input, a symbol whose profile has no long name leaves the registry as it
  was. Had the application enabled notifications, a non-empty symbol that is not yet
  registered would be rejected with the \<open>InvalidTicker\<close> message and nothing else would
  change.
\<close>

lemma add_ticker_keeps_registry:
  "longName (info src (upper (ticker_input_value d))) = None \<Longrightarrow>
   company_dict (api_obj (snd (add_ticker src d))) = company_dict (api_obj d)"
  by (simp add: add_ticker_def Let_def split: option.splits)

lemma add_ticker_invalid_when_enabled:
  "longName (info src (upper (ticker_input_value d))) = None \<Longrightarrow>
   upper (ticker_input_value d) \<noteq> [] \<Longrightarrow>
   upper (ticker_input_value d) \<notin> set (dict_values (company_dict (api_obj d))) \<Longrightarrow>
   notifications d = Some shown \<Longrightarrow>
   add_ticker src d = (Inr (), d\<lparr>notifications := Some (shown @ [InvalidTicker])\<rparr>)"
  by (simp add: add_ticker_def Let_def)

text \<open>
  C4 on the symbol \<open>zzzzinvalid\<close>, against a provider that has no profile for it: the
  upper-cased symbol is not empty and not registered, the profile has no long name, and
  the dashboard as the module sets it up has no notification area. \<open>add_ticker\<close> reaches
  line 52 and raises \<open>AttributeError\<close> there, so no \<open>InvalidTicker\<close> rejection is shown;
  the registry and the rest of the dashboard stay as they were.
\<close>

theorem add_ticker_invalid_raises:
  "upper (ticker_input_value (dashboard_with ''zzzzinvalid'')) = ''ZZZZINVALID''
   \<and> ''ZZZZINVALID'' \<notin> set (dict_values (company_dict (api_obj (dashboard_with ''zzzzinvalid''))))
   \<and> longName (info dead_source ''ZZZZINVALID'') = None
   \<and> notifications (dashboard_with ''zzzzinvalid'') = None
   \<and> add_ticker dead_source (dashboard_with ''zzzzinvalid'') =
       (Inl (AttributeError ''error''), dashboard_with ''zzzzinvalid'')"
  by (simp add: add_ticker_def dead_source_def no_profile_def dashboard_with_def
        upper_def upper_char_def init_api_def dict_values_def Let_def)

section \<open>Quarterly changes\<close>

text \<open>
  The shape of every waterfall trace over a non-empty history: the first entry of
  \<open>quarterly_changes\<close> belongs to the earliest quarter and is \<open>NaN\<close>; \<open>y\<close> holds the
  values of the later entries only, while \<open>x\<close> starts with the label of the earliest
  quarter.
\<close>

lemma fold_min_le: "fold min qs (q :: nat) \<le> q"
proof (induction qs arbitrary: q)
  case Nil
  show ?case by simp
next
  case (Cons a qs)
  have "fold min qs (min a q) \<le> min a q" by (rule Cons.IH)
  then show ?case by simp
qed

lemma fold_max_ge: "(q :: nat) \<le> fold max qs q"
proof (induction qs arbitrary: q)
  case Nil
  show ?case by simp
next
  case (Cons a qs)
  have "max a q \<le> fold max qs (max a q)" by (rule Cons.IH)
  then show ?case by simp
qed

lemma resample_first:
  "series \<noteq> [] \<Longrightarrow>
   \<exists>v rest. resample_Q_last series =
     (quarter_end (fold min (tl (map (\<lambda>(d, c). quarter_index d) series))
                     (hd (map (\<lambda>(d, c). quarter_index d) series))), v) # rest"
proof -
  assume "series \<noteq> []"
  then obtain e es where s: "series = e # es" by (cases series) auto
  obtain d c where e: "e = (d, c)" by (cases e)
  let ?qs = "map (\<lambda>(d, c). quarter_index d) es"
  let ?q = "quarter_index d"
  have "fold min ?qs ?q \<le> fold max ?qs ?q"
    using fold_min_le [of ?qs ?q] fold_max_ge [of ?q ?qs] by linarith
  then have "[fold min ?qs ?q ..< Suc (fold max ?qs ?q)] =
      fold min ?qs ?q # [Suc (fold min ?qs ?q) ..< Suc (fold max ?qs ?q)]"
    by (simp add: upt_conv_Cons)
  then show ?thesis
    by (simp add: resample_Q_last_def s e)
qed

lemma pct_change_first: "pct_change (x # xs) = NaN # tl (pct_change (x # xs))"
  by (cases x) (simp_all add: pct_change_def ffill_def shift1_def)

lemma quarterly_changes_first:
  "data \<noteq> [] \<Longrightarrow>
   \<exists>rest. quarterly_changes data =
     (quarter_end (fold min (tl (map (\<lambda>p. quarter_index (s_date p)) data))
                     (hd (map (\<lambda>p. quarter_index (s_date p)) data))), NaN) # rest"
proof -
  assume d: "data \<noteq> []"
  let ?series = "map (\<lambda>p. (s_date p, s_close p)) data"
  from d have "?series \<noteq> []" by simp
  from resample_first [OF this] obtain v rest where
    r: "resample_Q_last ?series =
      (quarter_end (fold min (tl (map (\<lambda>(d, c). quarter_index d) ?series))
                     (hd (map (\<lambda>(d, c). quarter_index d) ?series))), v) # rest"
    by blast
  have m: "map (\<lambda>(d, c). quarter_index d) ?series = map (\<lambda>p. quarter_index (s_date p)) data"
    by simp
  have "pct_change (v # map snd rest) = NaN # tl (pct_change (v # map snd rest))"
    by (rule pct_change_first)
  then obtain ps where "pct_change (v # map snd rest) = NaN # ps" by blast
  with r show ?thesis
    unfolding m by (simp add: quarterly_changes_def)
qed

lemma waterfall_shape:
  "history src ticker P1y \<noteq> [] \<Longrightarrow>
   \<exists>rest. quarterly_changes (history src ticker P1y) =
       (quarter_end
          (fold min (tl (map (\<lambda>p. quarter_index (s_date p)) (history src ticker P1y)))
                    (hd (map (\<lambda>p. quarter_index (s_date p)) (history src ticker P1y)))), NaN)
         # rest
     \<and> fst (plot_waterfall_chart strftime src self ticker) =
         Waterfall
           (strftime (quarter_end
              (fold min (tl (map (\<lambda>p. quarter_index (s_date p)) (history src ticker P1y)))
                        (hd (map (\<lambda>p. quarter_index (s_date p)) (history src ticker P1y)))))
              # map (\<lambda>(d, v). strftime d) rest)
           (map snd (dropna rest))"
proof -
  assume h: "history src ticker P1y \<noteq> []"
  from quarterly_changes_first [OF h] obtain rest where
    q: "quarterly_changes (history src ticker P1y) =
     (quarter_end (fold min (tl (map (\<lambda>p. quarter_index (s_date p)) (history src ticker P1y)))
                     (hd (map (\<lambda>p. quarter_index (s_date p)) (history src ticker P1y)))), NaN) # rest"
    by blast
  from h obtain p ps where hp: "history src ticker P1y = p # ps"
    by (cases "history src ticker P1y") auto
  have "fst (plot_waterfall_chart strftime src self ticker) =
      Waterfall (map (\<lambda>(d, v). strftime d) (quarterly_changes (history src ticker P1y)))
                (map snd (dropna (quarterly_changes (history src ticker P1y))))"
    by (simp add: plot_waterfall_chart_def hp)
  with q show ?thesis
    by (simp add: dropna_def)
qed

lemma two_quarters_changes:
  "quarterly_changes two_quarters =
     [(\<lparr>year = 2024, month = 3, day = 31\<rparr>, NaN),
      (\<lparr>year = 2024, month = 6, day = 30\<rparr>, Val 10)]"
  by (simp add: quarterly_changes_def two_quarters_def session_of_def resample_Q_last_def
        quarter_index_def quarter_end_def last_in_quarter_def pct_change_def ffill_def
        shift1_def)

lemma demo_waterfall:
  "plot_waterfall_chart quarter_label demo_source init_api ''AAPL'' =
     (Waterfall [''2024-Q1'', ''2024-Q2''] [Val 10], init_api)"
proof -
  have "history demo_source ''AAPL'' P1y = two_quarters"
    by (simp add: demo_source_def)
  moreover have "two_quarters \<noteq> []" by (simp add: two_quarters_def)
  ultimately show ?thesis
    by (simp add: plot_waterfall_chart_def two_quarters_changes dropna_def
          quarter_label_def digit_def quarter_def split: list.splits)
qed

text \<open>
  C6 on a history that spans the first two quarters of 2024: the first quarter's change
  is undefined and \<open>dropna\<close> removes it from \<open>y\<close>, but \<open>x\<close> is taken from the index
  before \<open>dropna\<close>, so the label of the first quarter stays and the one emitted point
  carries it.
\<close>

theorem waterfall_first_quarter_emitted:
  "quarterly_changes two_quarters ! 0 = (\<lparr>year = 2024, month = 3, day = 31\<rparr>, NaN)
   \<and> quarter_label \<lparr>year = 2024, month = 3, day = 31\<rparr> = ''2024-Q1''
   \<and> points (fst (plot_waterfall_chart quarter_label demo_source init_api ''AAPL'')) =
       [(''2024-Q1'', Val 10)]"
  by (simp add: demo_waterfall two_quarters_changes quarter_label_def digit_def quarter_def)

text \<open>
  C7 on the same history: the value 10 is the percent change of the second quarter
  (from 110 to 121), whose quarter-end label is \<open>2024-Q2\<close>; the point that carries it is
  labelled with the quarter before.
\<close>

theorem waterfall_label_of_previous_quarter:
  "quarterly_changes two_quarters ! 1 = (\<lparr>year = 2024, month = 6, day = 30\<rparr>, Val 10)
   \<and> quarter_label \<lparr>year = 2024, month = 6, day = 30\<rparr> = ''2024-Q2''
   \<and> fst (plot_waterfall_chart quarter_label demo_source init_api ''AAPL'') =
       Waterfall [''2024-Q1'', ''2024-Q2''] [Val 10]
   \<and> fst (points (fst (plot_waterfall_chart quarter_label demo_source init_api ''AAPL'')) ! 0)
       \<noteq> ''2024-Q2''"
  by (simp add: demo_waterfall two_quarters_changes quarter_label_def digit_def quarter_def)

section \<open>Failures\<close>

text \<open>
  C9 on the selection \<open>['AAPL']\<close>, a raw symbol that is not a key of the registry:
  \<open>plot_donut_chart\<close>, \<open>update_donut_chart\<close> and \<open>update_performance_tabs\<close> raise
  \<open>KeyError\<close>, while \<open>create_stock_dataframe\<close> passes the symbol through and returns
  its record.
\<close>

theorem unknown_name_raises_KeyError:
  "fst (plot_donut_chart demo_source init_api [''AAPL'']) = Inl (KeyError ''AAPL'')
   \<and> fst (update_donut_chart demo_source init_api [''AAPL'']) = Inl (KeyError ''AAPL'')
   \<and> fst (update_performance_tabs quarter_label demo_source init_api [''AAPL'']) =
       Inl (KeyError ''AAPL'')
   \<and> fst (create_stock_dataframe demo_source init_api [''AAPL'']) =
       [\<lparr>Company = ''AAPL'', Ticker = ''AAPL'', Current_Price = 121, Opening_Price = 110,
         Price_Change = 11\<rparr>]"
  by (simp add: plot_donut_chart_def update_donut_chart_def update_performance_tabs_def
        dict_item_def init_api_def create_stock_dataframe_def fetch_stock_data_def
        resolve_def dict_get_def demo_source_def session_of_def Let_def)

section \<open>The registry is only changed by registration\<close>

lemma stock_rows_loop_frame: "snd (stock_rows_loop src self ids rows) = self"
  by (induction ids arbitrary: rows)
     (simp_all add: fetch_stock_data_def Let_def split: list.splits)

lemma performance_tabs_loop_frame:
  "snd (performance_tabs_loop strftime src a selected tabs) = a"
  by (induction selected arbitrary: tabs)
     (simp_all add: plot_performance_chart_def plot_waterfall_chart_def
        split: sum.splits list.splits)

lemma add_ticker_registers:
  "company_dict (api_obj (snd (add_ticker demo_source (dashboard_with ''shop'')))) =
     company_dict init_api @ [(''Shopify Inc.'', ''SHOP'')]"
  by (simp add: add_ticker_def demo_source_def dashboard_with_def
        upper_def upper_char_def init_api_def dict_values_def Let_def)

text \<open>
  C10: each of \<open>fetch_stock_data\<close>, \<open>create_stock_dataframe\<close>, \<open>create_stock_table\<close>,
  \<open>plot_donut_chart\<close>, \<open>plot_performance_chart\<close>, \<open>plot_waterfall_chart\<close> and
  \<open>plot_candlestick\<close> ends, for every input and also when it raises, with
  \<open>company_dict\<close> as it was before the call; \<open>add_ticker\<close> does change it.
\<close>

theorem read_only_operations_keep_registry:
  "company_dict (snd (fetch_stock_data src self ticker)) = company_dict self
   \<and> company_dict (snd (create_stock_dataframe src self ids)) = company_dict self
   \<and> company_dict (snd (create_stock_table self df)) = company_dict self
   \<and> company_dict (snd (plot_donut_chart src self selected)) = company_dict self
   \<and> company_dict (snd (plot_performance_chart src self ticker)) = company_dict self
   \<and> company_dict (snd (plot_waterfall_chart strftime src self ticker)) = company_dict self
   \<and> company_dict (snd (plot_candlestick src self)) = company_dict self
   \<and> company_dict (api_obj (snd (add_ticker demo_source (dashboard_with ''shop'')))) \<noteq>
       company_dict (api_obj (dashboard_with ''shop''))"
proof (intro conjI)
  show "company_dict (snd (fetch_stock_data src self ticker)) = company_dict self"
    by (simp add: fetch_stock_data_def split: list.splits)
  show "company_dict (snd (create_stock_dataframe src self ids)) = company_dict self"
    by (simp add: create_stock_dataframe_def stock_rows_loop_frame)
  show "company_dict (snd (create_stock_table self df)) = company_dict self"
    by (simp add: create_stock_table_def split: prod.splits)
  show "company_dict (snd (plot_donut_chart src self selected)) = company_dict self"
    by (simp add: plot_donut_chart_def split: sum.splits)
  show "company_dict (snd (plot_performance_chart src self ticker)) = company_dict self"
    by (simp add: plot_performance_chart_def split: list.splits)
  show "company_dict (snd (plot_waterfall_chart strftime src self ticker)) = company_dict self"
    by (simp add: plot_waterfall_chart_def split: list.splits)
  show "company_dict (snd (plot_candlestick src self)) = company_dict self"
    by (simp add: plot_candlestick_def Let_def)
  show "company_dict (api_obj (snd (add_ticker demo_source (dashboard_with ''shop'')))) \<noteq>
       company_dict (api_obj (dashboard_with ''shop''))"
  proof -
    have "company_dict (api_obj (dashboard_with ''shop'')) = company_dict init_api"
      by (simp add: dashboard_with_def)
    then show ?thesis
      using add_ticker_registers by simp
  qed
qed

end
